theory Spec2Isabelle
  imports Complex_Main "HOL-Library.Word" "HOL-Library.Sublist" "HOL-Library.Monad_Syntax"
begin

section \<open>The signed-request client of \<^verbatim>\<open>src/lib/make-request.js\<close>\<close>

text \<open>
  The module exports a function of the configuration that returns \<^verbatim>\<open>makeRequest\<close>; the
  closure holds the private \<^verbatim>\<open>sendRequest\<close>. The model follows the source line by line:
  JavaScript values are a datatype with the language's truthiness, a thrown
  \<^verbatim>\<open>TypeError\<close> is the value \<open>None\<close>, the request and response events are a datatype
  and the handlers one step function on the state of the closure. The built-in and
  third-party functions the module calls (HMAC, base64, UTF-8, \<^verbatim>\<open>JSON\<close>, the clock, the
  form-data encoder, \<^verbatim>\<open>https.request\<close>) are fields of an environment, and so is what the
  owner of the payload object does to it while \<^verbatim>\<open>sendRequest\<close> awaits; every theorem holds
  for all of them.
\<close>

subsection \<open>JavaScript values\<close>

type_synonym byte = "8 word"

text \<open>
  A string is a list of characters with codes below 256. A number is read as the real it
  denotes (\<open>-0\<close> is \<open>0\<close>; \<^verbatim>\<open>NaN\<close> and the infinities are left out). An object is an
  association list in which a key occurs once, read with \<^const>\<open>map_of\<close>.
\<close>

datatype jsval =
    Undefined
  | Null
  | JBool bool
  | JNum real
  | JStr string
  | JArr "jsval list"
  | JObj "(string \<times> jsval) list"
  | JBuf "byte list"

text \<open>The conversion to boolean that \<^verbatim>\<open>if (v)\<close>, \<^verbatim>\<open>v && w\<close>, \<^verbatim>\<open>v || w\<close>, \<^verbatim>\<open>v ? a : b\<close> and \<^verbatim>\<open>!v\<close> apply.\<close>

fun truthy :: "jsval \<Rightarrow> bool" where
  "truthy Undefined = False"
| "truthy Null = False"
| "truthy (JBool b) = b"
| "truthy (JNum x) = (x \<noteq> 0)"
| "truthy (JStr s) = (s \<noteq> [])"
| "truthy (JArr vs) = True"
| "truthy (JObj fs) = True"
| "truthy (JBuf bs) = True"

text \<open>
  \<open>property v k\<close> is the value of \<^verbatim>\<open>v.k\<close> for \<open>v\<close> other than \<^verbatim>\<open>null\<close> and \<^verbatim>\<open>undefined\<close>,
  for the keys the module reads (\<^verbatim>\<open>data\<close>, \<^verbatim>\<open>alertBody\<close>, \<^verbatim>\<open>headers\<close>, \<^verbatim>\<open>content-type\<close>,
  \<^verbatim>\<open>errors\<close>, \<^verbatim>\<open>code\<close>, and \<^verbatim>\<open>buffer\<close> of an object): a primitive, an array and a buffer
  have none of them. \<open>get\<close> is the read as the language performs it: on \<^verbatim>\<open>null\<close> and
  \<^verbatim>\<open>undefined\<close> it throws a \<^verbatim>\<open>TypeError\<close>.
\<close>

fun property :: "jsval \<Rightarrow> string \<Rightarrow> jsval" where
  "property (JObj fs) k = (case map_of fs k of None \<Rightarrow> Undefined | Some v \<Rightarrow> v)"
| "property v k = Undefined"

fun get :: "jsval \<Rightarrow> string \<Rightarrow> jsval option" where
  "get Undefined k = None"
| "get Null k = None"
| "get v k = Some (property v k)"

fun isArray :: "jsval \<Rightarrow> bool" where
  "isArray (JArr vs) = True"
| "isArray v = False"

fun elems :: "jsval \<Rightarrow> jsval list" where
  "elems (JArr vs) = vs"
| "elems v = []"

text \<open>\<^verbatim>\<open>String(n)\<close> for a natural number: its decimal digits.\<close>

definition digit_char :: "nat \<Rightarrow> char" where
  "digit_char d = ''0123456789'' ! d"

fun String_nat :: "nat \<Rightarrow> string" where
  "String_nat n = (if n < 10 then [digit_char n] else String_nat (n div 10) @ [digit_char (n mod 10)])"

declare String_nat.simps [simp del]

text \<open>
  The own enumerable properties of a value, which \<^verbatim>\<open>object-assign\<close> copies: the fields of
  an object, the indices of an array, of a string and of a buffer, none of a primitive.
\<close>

fun own_props :: "jsval \<Rightarrow> (string \<times> jsval) list" where
  "own_props (JObj fs) = fs"
| "own_props (JArr vs) = map (\<lambda>i. (String_nat i, vs ! i)) [0..<length vs]"
| "own_props (JStr s) = map (\<lambda>i. (String_nat i, JStr [s ! i])) [0..<length s]"
| "own_props (JBuf bs) = map (\<lambda>i. (String_nat i, JNum (real (unat (bs ! i))))) [0..<length bs]"
| "own_props v = []"

definition objectAssign :: "(string \<rightharpoonup> jsval) \<Rightarrow> jsval \<Rightarrow> (string \<rightharpoonup> jsval)" where
  "objectAssign target source = target ++ map_of (own_props source)"

text \<open>\<^verbatim>\<open>Buffer(s, 'ascii')\<close>: one byte for each character, its code.\<close>

definition ascii :: "string \<Rightarrow> byte list" where
  "ascii s = map of_char s"

subsection \<open>Errors, configuration, environment\<close>

text \<open>
  An \<^verbatim>\<open>Error\<close> object: its message, the \<^verbatim>\<open>code\<close> a transport error carries, and the
  \<^verbatim>\<open>apiError\<close> the response handler attaches.
\<close>

datatype err = Err (message: string) (code: "string option") (apiError: "jsval option")

abbreviation Error :: "string \<Rightarrow> err" where
  "Error m \<equiv> Err m None None"

record config =
  apiId :: string
  apiSecret :: string
  host :: "string option"
  port :: "nat option"
  timeout :: "nat option"

text \<open>
  Modelled from the spec: the form-data encoder \<^verbatim>\<open>./encode-form-data\<close> is not among the
  sources; by its contract it reports an error or a byte buffer with its headers
  (\<^verbatim>\<open>content-type\<close>, \<^verbatim>\<open>content-length\<close>, ...), header names to header strings.
\<close>

record encoded =
  buffer :: "byte list"
  headers :: "(string \<times> string) list"

definition encoded_val :: "encoded \<Rightarrow> jsval" where
  "encoded_val e =
     JObj [(''buffer'', JBuf (buffer e)),
           (''headers'', JObj (map (\<lambda>(k, s). (k, JStr s)) (headers e)))]"

text \<open>The options given to \<^verbatim>\<open>https.request\<close>.\<close>

record opts =
  opts_method :: string
  opts_host :: string
  opts_port :: "nat option"
  rejectUnauthorized :: bool
  path :: string
  opts_headers :: "string \<rightharpoonup> jsval"

record env =
  now :: string  \<comment> \<open>\<^verbatim>\<open>moment().utc().format('YYYY-MM-DDTHH:mm:ss[Z]')\<close>\<close>
  NODE_ENV :: "string option"  \<comment> \<open>\<^verbatim>\<open>process.env.NODE_ENV\<close>\<close>
  hmac_sha256 :: "byte list \<Rightarrow> byte list \<Rightarrow> byte list"  \<comment> \<open>key, message\<close>
  base64 :: "byte list \<Rightarrow> string"
  base64_decode :: "string \<Rightarrow> byte list"
  utf8 :: "string \<Rightarrow> byte list"
  utf8_decode :: "byte list \<Rightarrow> string"  \<comment> \<open>\<^verbatim>\<open>chunk.toString()\<close>\<close>
  stringify :: "jsval \<Rightarrow> string"  \<comment> \<open>\<^verbatim>\<open>JSON.stringify\<close>\<close>
  parse :: "string \<Rightarrow> err + jsval"  \<comment> \<open>\<^verbatim>\<open>JSON.parse\<close>; \<open>Inl\<close> is the \<^verbatim>\<open>SyntaxError\<close> thrown\<close>
  to_string :: "jsval \<Rightarrow> string"  \<comment> \<open>the conversion \<^verbatim>\<open>+\<close> applies to a value that is no string\<close>
  encodeFormData :: "jsval \<Rightarrow> err + encoded"
  at_write :: "jsval \<Rightarrow> jsval"
    \<comment> \<open>the payload object belongs to the caller or to the encoder: from its value at the call,
        the value it has when the body is written after \<^verbatim>\<open>await\<close>; the identity when nobody changes it\<close>
  https_accepts :: "opts \<Rightarrow> bool"
    \<comment> \<open>whether \<^verbatim>\<open>https.request\<close> returns a request; it throws on options it refuses, such as a
        path with a space\<close>

subsection \<open>\<^verbatim>\<open>sendRequest\<close>: signing and dispatch\<close>

definition defaultHost :: string where
  "defaultHost = ''news-api.apple.com''"

text \<open>
  What one call of \<^verbatim>\<open>sendRequest\<close> that issues a request computes and does before any event:
  its local constants, the options given to \<^verbatim>\<open>https.request\<close>, the argument of
  \<^verbatim>\<open>req.setTimeout\<close>, the arguments of the calls of \<^verbatim>\<open>JSON.stringify\<close> in order, the bytes
  given to \<^verbatim>\<open>req.write\<close> (\<open>None\<close>: nothing is written) and whether \<^verbatim>\<open>req.end\<close> is reached.
\<close>

record sent =
  payload_headers :: jsval
  date :: string
  canonicalRequest :: "byte list"
  key :: "byte list"
  auth :: string
  opts :: opts
  set_timeout :: nat
  stringified :: "jsval list"
  written :: "byte list option"
  ended :: bool

definition isAlert :: "jsval \<Rightarrow> bool" where
  "isAlert post = (truthy post \<and> truthy (property post ''data'') \<and> truthy (property (property post ''data'') ''alertBody''))"

definition str_plus :: "env \<Rightarrow> jsval \<Rightarrow> string" where
  "str_plus env v = (case v of JStr s \<Rightarrow> s | _ \<Rightarrow> to_string env v)"

definition dquote :: char where
  "dquote = CHR 0x22"

text \<open>The constant \<^verbatim>\<open>headers\<close>: the headers that come with the payload.\<close>

definition payload_headers_of :: "env \<Rightarrow> jsval \<Rightarrow> jsval" where
  "payload_headers_of env post =
     (if truthy post
      then (if isAlert post
            then JObj [(''content-type'', JStr ''application/json''),
                       (''content-length'', JNum (real (length (utf8 env (stringify env post)))))]
            else property post ''headers'')
      else JObj [])"

text \<open>The constant \<^verbatim>\<open>host\<close>.\<close>

definition host_of :: "config \<Rightarrow> string" where
  "host_of config =
     (case host config of None \<Rightarrow> defaultHost
      | Some a \<Rightarrow> if a = [] then defaultHost else a)"

text \<open>
  The bytes appended to the canonical request (line 24): none without a payload, the UTF-8
  bytes of the JSON text of an alert, \<^verbatim>\<open>post.buffer\<close> otherwise (\<^verbatim>\<open>Buffer.concat\<close> throws when
  that is no buffer).
\<close>

definition payload_bytes :: "env \<Rightarrow> jsval \<Rightarrow> byte list option option" where
  "payload_bytes env post =
     (if truthy post
      then (if isAlert post then Some (Some (utf8 env (stringify env post)))
            else (case property post ''buffer'' of
                    JBuf b \<Rightarrow> Some (Some b)
                  | _ \<Rightarrow> None))
      else Some None)"

text \<open>
  The bytes given to \<^verbatim>\<open>req.write\<close> (lines 110 to 112), which runs after the \<^verbatim>\<open>await\<close>: the
  payload is serialized again, or its \<^verbatim>\<open>buffer\<close> read again, as the object then is.
  \<open>Some None\<close>: nothing is written; \<open>None\<close>: \<^verbatim>\<open>req.write\<close> throws, its argument being
  neither a string nor a buffer.
\<close>

definition body_written :: "env \<Rightarrow> jsval \<Rightarrow> byte list option option" where
  "body_written env post =
     (if truthy post
      then (if isAlert post then Some (Some (utf8 env (stringify env (at_write env post))))
            else (case property (at_write env post) ''buffer'' of
                    JBuf b \<Rightarrow> Some (Some b)
                  | JStr s \<Rightarrow> Some (Some (utf8 env s))
                  | _ \<Rightarrow> None))
      else Some None)"

text \<open>The constants \<^verbatim>\<open>key\<close>, \<^verbatim>\<open>signature\<close> and \<^verbatim>\<open>auth\<close>.\<close>

definition authorization :: "env \<Rightarrow> config \<Rightarrow> string \<Rightarrow> byte list \<Rightarrow> string" where
  "authorization env config d canonical =
     (let k = base64_decode env (apiSecret config);
          signature = base64 env (hmac_sha256 env k canonical)
      in ''HHMAC; key='' @ [dquote] @ apiId config @
         [dquote] @ ''; signature='' @ [dquote] @ signature @
         [dquote] @ ''; date='' @ [dquote] @ d @ [dquote])"

text \<open>The constant \<^verbatim>\<open>opts\<close>, from the headers of the payload and the value of \<^verbatim>\<open>auth\<close>.\<close>

definition request_opts :: "env \<Rightarrow> config \<Rightarrow> string \<Rightarrow> string \<Rightarrow> jsval \<Rightarrow> string \<Rightarrow> opts" where
  "request_opts env config meth endpoint hdrs a =
     \<lparr>opts_method = meth, opts_host = host_of config,
      opts_port = (case port config of None \<Rightarrow> None
                   | Some p \<Rightarrow> if p = 0 then None else Some p),
      rejectUnauthorized = (NODE_ENV env \<noteq> Some ''test''),
      path = endpoint,
      opts_headers = objectAssign [''Accept'' \<mapsto> JStr ''application/json'',
                                   ''Authorization'' \<mapsto> JStr a] hdrs\<rparr>"

text \<open>
  \<^verbatim>\<open>sendRequest\<close> up to \<^verbatim>\<open>req.end()\<close>. It throws, and its promise is rejected with nothing
  sent (\<open>None\<close>), when the headers of the payload are \<^verbatim>\<open>undefined\<close> (line 21), when
  \<^verbatim>\<open>post.buffer\<close> is no buffer (line 24), and when \<^verbatim>\<open>https.request\<close> refuses the options
  (line 47), which is after the signing. When \<^verbatim>\<open>req.write\<close> throws (line 111) the request
  exists, nothing is written and \<^verbatim>\<open>req.end\<close> is not reached.
\<close>

definition sendRequest :: "env \<Rightarrow> config \<Rightarrow> string \<Rightarrow> string \<Rightarrow> jsval \<Rightarrow> sent option" where
  "sendRequest env config meth endpoint post =
     do {
       let hdrs = payload_headers_of env post;
       let h = host_of config;
       let d = now env;
       ct \<leftarrow> get hdrs ''content-type'';
       let head = ascii (meth @ ''https://'' @ h @ endpoint @ d @
                    (if truthy ct then str_plus env ct else []));
       body \<leftarrow> payload_bytes env post;
       let canonical = (case body of None \<Rightarrow> head | Some b \<Rightarrow> head @ b);
       let a = authorization env config d canonical;
       let ropts = request_opts env config meth endpoint hdrs a;
       if https_accepts env ropts
       then Some \<lparr>payload_headers = hdrs, date = d, canonicalRequest = canonical,
                  key = base64_decode env (apiSecret config), auth = a, opts = ropts,
                  set_timeout = (case timeout config of None \<Rightarrow> 0 | Some t \<Rightarrow> t),
                  stringified = (if isAlert post then [post, post, at_write env post] else []),
                  written = (case body_written env post of None \<Rightarrow> None | Some w \<Rightarrow> w),
                  ended = (body_written env post \<noteq> None)\<rparr>
       else None
     }"

subsection \<open>The event handlers of one transaction\<close>

record response =
  statusCode :: nat

text \<open>
  The two ways \<^verbatim>\<open>sendRequest\<close> calls its callback, \<^verbatim>\<open>cb(err)\<close> and \<^verbatim>\<open>cb(null, res, body)\<close>,
  and the two ways \<^verbatim>\<open>makeRequest\<close> calls the caller's, \<^verbatim>\<open>cb(err)\<close> and \<^verbatim>\<open>cb(null, body)\<close>.
\<close>

datatype reply = ReplyErr err | ReplyOk response jsval

datatype outcome = Failure err | Success jsval

text \<open>The function \<^verbatim>\<open>done\<close> of \<^verbatim>\<open>makeRequest\<close>, handed to \<^verbatim>\<open>sendRequest\<close> as its callback.\<close>

definition status_error :: "string \<Rightarrow> string \<Rightarrow> response \<Rightarrow> err" where
  "status_error meth endpoint res =
     Error (meth @ '' '' @ endpoint @ '' code '' @ String_nat (statusCode res))"

fun done_cb :: "string \<Rightarrow> string \<Rightarrow> reply \<Rightarrow> outcome" where
  "done_cb meth endpoint (ReplyErr e) = Failure e"
| "done_cb meth endpoint (ReplyOk res body) =
     (if take 1 (String_nat (statusCode res)) \<noteq> ''2''
      then Failure (status_error meth endpoint res)
      else Success body)"

text \<open>
  The body of the \<^verbatim>\<open>'end'\<close> handler once the guard has passed, on the accumulated text
  \<open>result\<close>: the call of the callback it ends with, or \<open>None\<close> when a property read
  throws and the callback is not called.
\<close>

definition on_end :: "env \<Rightarrow> response \<Rightarrow> string \<Rightarrow> reply option" where
  "on_end env res result =
    (if result = [] then Some (ReplyOk res Null)
     else case parse env result of
       Inl e \<Rightarrow> Some (ReplyErr e)
     | Inr parsed \<Rightarrow> do {
         d \<leftarrow> get parsed ''data'';
         if truthy d then Some (ReplyOk res d)
         else do {
           es \<leftarrow> get parsed ''errors'';
           if truthy es \<and> isArray es \<and> 0 < length (elems es)
           then do {
             c \<leftarrow> get (elems es ! 0) ''code'';
             if truthy c then Some (ReplyErr (Err result None (Some (elems es ! 0))))
             else Some (ReplyErr (Error result))
           }
           else Some (ReplyErr (Error result))
         }
       })"

text \<open>What the caller's callback receives when the response ends, if it is called.\<close>

definition finish :: "env \<Rightarrow> string \<Rightarrow> string \<Rightarrow> response \<Rightarrow> string \<Rightarrow> outcome option" where
  "finish env meth endpoint res result = map_option (done_cb meth endpoint) (on_end env res result)"

text \<open>The error the \<^verbatim>\<open>'error'\<close> handler of the request makes of a connection reset.\<close>

definition timeout_error :: "config \<Rightarrow> err" where
  "timeout_error config =
     Error (''Apple News API endpoint timeout after '' @
            (case timeout config of None \<Rightarrow> ''undefined'' | Some t \<Rightarrow> String_nat t) @ '' ms'')"

datatype event =
    Timeout  \<comment> \<open>\<^verbatim>\<open>'timeout'\<close> on the request\<close>
  | ReqError err  \<comment> \<open>\<^verbatim>\<open>'error'\<close> on the request\<close>
  | Response response  \<comment> \<open>\<^verbatim>\<open>'response'\<close> on the request\<close>
  | Data "byte list"  \<comment> \<open>\<^verbatim>\<open>'data'\<close> on the response\<close>
  | ResError err  \<comment> \<open>\<^verbatim>\<open>'error'\<close> on the response\<close>
  | End  \<comment> \<open>\<^verbatim>\<open>'end'\<close> on the response\<close>

text \<open>
  The state of a transaction: the response whose handlers are attached (none before
  \<^verbatim>\<open>'response'\<close>), the variables \<^verbatim>\<open>result\<close> and \<^verbatim>\<open>done\<close> of its closure, the number of calls
  of \<^verbatim>\<open>req.abort\<close>, and the calls of the caller's callback in order.
\<close>

record tx =
  res :: "response option"
  result :: string
  done_flag :: bool
  aborts :: nat
  delivered :: "outcome list"

definition tx_init :: tx where
  "tx_init = \<lparr>res = None, result = [], done_flag = False, aborts = 0, delivered = []\<rparr>"

text \<open>
  One equation for each handler. The handlers of the response are attached when
  \<^verbatim>\<open>'response'\<close> is emitted, which begins its closure with \<^verbatim>\<open>result\<close> empty and \<^verbatim>\<open>done\<close> false;
  before that, events of the response find no handler. The \<^verbatim>\<open>'timeout'\<close> handler only aborts
  the request. The \<^verbatim>\<open>'error'\<close> handler of the request is outside the closure of the
  response: it calls the callback whatever the state is.
\<close>

fun on_event :: "env \<Rightarrow> config \<Rightarrow> string \<Rightarrow> string \<Rightarrow> tx \<Rightarrow> event \<Rightarrow> tx" where
  "on_event env config meth endpoint s Timeout = s\<lparr>aborts := aborts s + 1\<rparr>"
| "on_event env config meth endpoint s (ReqError e) =
     s\<lparr>delivered := delivered s @
         [done_cb meth endpoint
            (ReplyErr (if code e = Some ''ECONNRESET'' then timeout_error config else e))]\<rparr>"
| "on_event env config meth endpoint s (Response r) =
     s\<lparr>res := Some r, result := [], done_flag := False\<rparr>"
| "on_event env config meth endpoint s (Data chunk) =
     (case res s of None \<Rightarrow> s
      | Some r \<Rightarrow> s\<lparr>result := result s @ utf8_decode env chunk\<rparr>)"
| "on_event env config meth endpoint s (ResError e) =
     (case res s of None \<Rightarrow> s
      | Some r \<Rightarrow>
          if \<not> done_flag s
          then s\<lparr>done_flag := True, delivered := delivered s @ [done_cb meth endpoint (ReplyErr e)]\<rparr>
          else s)"
| "on_event env config meth endpoint s End =
     (case res s of None \<Rightarrow> s
      | Some r \<Rightarrow>
          if \<not> done_flag s
          then (case finish env meth endpoint r (result s) of
                  None \<Rightarrow> s\<lparr>done_flag := True\<rparr>
                | Some out \<Rightarrow> s\<lparr>done_flag := True, delivered := delivered s @ [out]\<rparr>)
          else s)"

text \<open>The events of the response, whose handlers share the flag \<^verbatim>\<open>done\<close>.\<close>

fun response_event :: "event \<Rightarrow> bool" where
  "response_event (Data chunk) = True"
| "response_event (ResError e) = True"
| "response_event End = True"
| "response_event ev = False"

definition run :: "env \<Rightarrow> config \<Rightarrow> string \<Rightarrow> string \<Rightarrow> event list \<Rightarrow> tx" where
  "run env config meth endpoint evs = foldl (on_event env config meth endpoint) tx_init evs"

subsection \<open>\<^verbatim>\<open>makeRequest\<close>: the public entry point\<close>

record requestOpts =
  formData :: jsval

text \<open>
  What \<^verbatim>\<open>makeRequest\<close> does before any event: the encoder refuses the payload and the
  caller's callback is called at once; or \<^verbatim>\<open>sendRequest\<close> issues a request; or
  \<^verbatim>\<open>sendRequest\<close> throws before there is a request. The first field of each is the argument of the call of the
  encoder (\<open>None\<close>: it is not called).
\<close>

datatype dispatch =
    Refused "jsval option" outcome
  | Issued "jsval option" sent
  | Thrown "jsval option"

fun encoder_arg :: "dispatch \<Rightarrow> jsval option" where
  "encoder_arg (Refused a out) = a"
| "encoder_arg (Issued a r) = a"
| "encoder_arg (Thrown a) = a"

fun issued :: "dispatch \<Rightarrow> sent option" where
  "issued (Issued a r) = Some r"
| "issued d = None"

definition send :: "jsval option \<Rightarrow> sent option \<Rightarrow> dispatch" where
  "send a r = (case r of None \<Rightarrow> Thrown a | Some x \<Rightarrow> Issued a x)"

definition makeRequest :: "env \<Rightarrow> config \<Rightarrow> string \<Rightarrow> string \<Rightarrow> requestOpts \<Rightarrow> dispatch" where
  "makeRequest env config meth endpoint ro =
    (if meth = ''POST'' \<and> truthy (formData ro)
     then (if truthy (property (formData ro) ''data'') \<and>
              truthy (property (property (formData ro) ''data'') ''alertBody'')
           then send None (sendRequest env config meth endpoint (formData ro))
           else (let arg = (if truthy (formData ro) then formData ro else JObj [])
                 in case encodeFormData env arg of
                      Inl e \<Rightarrow> Refused (Some arg) (done_cb meth endpoint (ReplyErr e))
                    | Inr encoded \<Rightarrow>
                        send (Some arg) (sendRequest env config meth endpoint (encoded_val encoded))))
     else send None (sendRequest env config meth endpoint Null))"

subsection \<open>The signing contract of the specification\<close>

text \<open>
  The contract \<^verbatim>\<open>sign(method, host, path, timestamp, contentType, payloadBytes)\<close> in the
  words of the specification: the canonical request is the method, \<^verbatim>\<open>https://<host>\<close>, the
  path, the timestamp, the content type if there is one and the payload bytes if there are
  any; the header value has the identifier, the base64 text of the HMAC-SHA256 of the
  canonical request under the decoded secret, and the timestamp.
\<close>

definition canonical_spec ::
  "string \<Rightarrow> string \<Rightarrow> string \<Rightarrow> string \<Rightarrow> string option \<Rightarrow> byte list option \<Rightarrow> byte list" where
  "canonical_spec meth h endpoint timestamp contentType payload =
     ascii meth @ ascii (''https://'' @ h) @ ascii endpoint @ ascii timestamp @
     (case contentType of None \<Rightarrow> [] | Some c \<Rightarrow> ascii c) @
     (case payload of None \<Rightarrow> [] | Some b \<Rightarrow> b)"

definition authorization_spec :: "env \<Rightarrow> string \<Rightarrow> string \<Rightarrow> string \<Rightarrow> byte list \<Rightarrow> string" where
  "authorization_spec env ident secret timestamp canonical =
     ''HHMAC; key='' @ [dquote] @ ident @ [dquote] @
     ''; signature='' @ [dquote] @
       base64 env (hmac_sha256 env (base64_decode env secret) canonical) @ [dquote] @
     ''; date='' @ [dquote] @ timestamp @ [dquote]"

text \<open>
  The payload of a request in the words of the specification (payload dispatch policy):
  a POST with a form payload carries the JSON bytes of the payload with content type
  \<^verbatim>\<open>application/json\<close> when the payload is an alert notification, and otherwise the buffer
  of the encoder with the content type among its headers; every other request carries
  none. The result is the content type, if any, and the bytes. \<open>alert_notification\<close> is
  the test \<^verbatim>\<open>payload.data.alertBody\<close> as the code performs it.
\<close>

definition alert_notification :: "jsval \<Rightarrow> bool" where
  "alert_notification fd \<longleftrightarrow> truthy (property (property fd ''data'') ''alertBody'')"

definition payload_spec :: "env \<Rightarrow> string \<Rightarrow> jsval \<Rightarrow> (string option \<times> byte list) option" where
  "payload_spec env meth fd =
     (if meth = ''POST'' \<and> truthy fd
      then (if alert_notification fd
            then Some (Some ''application/json'', utf8 env (stringify env fd))
            else (case encodeFormData env fd of
                    Inl e \<Rightarrow> None
                  | Inr encoded \<Rightarrow> Some (map_of (headers encoded) ''content-type'', buffer encoded)))
      else None)"

text \<open>A request signed over a given content type and payload, and sent with that content type.\<close>

definition signed_with ::
  "env \<Rightarrow> config \<Rightarrow> string \<Rightarrow> string \<Rightarrow> string option \<Rightarrow> byte list option \<Rightarrow> sent \<Rightarrow> bool" where
  "signed_with env config meth endpoint ct payload r \<longleftrightarrow>
     canonicalRequest r = canonical_spec meth (host_of config) endpoint (date r) ct payload \<and>
     auth r = authorization_spec env (apiId config) (apiSecret config) (date r) (canonicalRequest r) \<and>
     date r = now env \<and>
     opts_headers (opts r) ''content-type'' = map_option JStr ct \<and>
     (property (payload_headers r) ''Authorization'' = Undefined \<longrightarrow>
        opts_headers (opts r) ''Authorization'' = Some (JStr (auth r))) \<and>
     opts_method (opts r) = meth \<and> opts_host (opts r) = host_of config \<and> path (opts r) = endpoint"

subsection \<open>An environment for evaluation\<close>

text \<open>
  The theorems below hold for every environment. To evaluate the model at concrete inputs
  this one fixes the external functions: \<^verbatim>\<open>JSON.parse\<close> on the response texts of the
  examples (every other text is refused), \<^verbatim>\<open>JSON.stringify\<close> on the payloads of the
  examples, UTF-8 on ASCII text, and stand-ins for the digest, for base64, for the
  encoder, which refuses the empty object and frames every other payload, and for
  \<^verbatim>\<open>https.request\<close>, which refuses a path with a space. Nobody changes a payload.
\<close>

definition example_parse :: "string \<Rightarrow> err + jsval" where
  \<open>example_parse s =
     (if s = ''{"data":{"id":"123"}}''
        then Inr (JObj [(''data'', JObj [(''id'', JStr ''123'')])])
      else if s = ''{"data":null}''
        then Inr (JObj [(''data'', Null)])
      else if s = ''{"errors":[{"code":"X","message":"m"}]}''
        then Inr (JObj [(''errors'', JArr [JObj [(''code'', JStr ''X''), (''message'', JStr ''m'')]])])
      else if s = ''{"errors":[{"code":""}]}''
        then Inr (JObj [(''errors'', JArr [JObj [(''code'', JStr [])]])])
      else if s = ''null''
        then Inr Null
      else Inl (Error ''Unexpected token in JSON''))\<close>

definition example_stringify :: "jsval \<Rightarrow> string" where
  \<open>example_stringify v =
     (if v = JObj [(''data'', JObj [(''alertBody'', JStr ''hi'')])]
        then ''{"data":{"alertBody":"hi"}}''
      else if v = JObj [(''data'', JObj [(''alertBody'', JStr ''bye'')])]
        then ''{"data":{"alertBody":"bye"}}''
      else if v = JObj [(''data'', JObj [(''alertBody'', JStr [])])]
        then ''{"data":{"alertBody":""}}''
      else ''{}'')\<close>

definition example_encode :: "jsval \<Rightarrow> err + encoded" where
  "example_encode v =
     (if v = JObj [] then Inl (Error ''nothing to encode'')
      else Inr \<lparr>buffer = ascii (''--b '' @ example_stringify v @ '' --b--''),
                headers = [(''content-type'', ''multipart/form-data; boundary=b'')]\<rparr>)"

definition example_env :: env where
  "example_env =
     \<lparr>now = ''2024-01-02T03:04:05Z'',
      NODE_ENV = None,
      hmac_sha256 = (\<lambda>k m. k @ m),
      base64 = map (\<lambda>b. char_of (unat b)),
      base64_decode = map of_char,
      utf8 = map of_char,
      utf8_decode = map (\<lambda>b. char_of (unat b)),
      stringify = example_stringify,
      parse = example_parse,
      to_string = (\<lambda>v. ''[object Object]''),
      encodeFormData = example_encode,
      at_write = (\<lambda>v. v),
      https_accepts = (\<lambda>ropts. CHR '' '' \<notin> set (path ropts))\<rparr>"

text \<open>
  The same environment with a caller that, right after its call of \<^verbatim>\<open>makeRequest\<close>, sets
  the \<^verbatim>\<open>alertBody\<close> of its payload from \<^verbatim>\<open>hi\<close> to \<^verbatim>\<open>bye\<close>: the assignment runs before the
  continuation of the \<^verbatim>\<open>await\<close>.
\<close>

definition example_env_changing :: env where
  "example_env_changing =
     example_env\<lparr>at_write :=
       (\<lambda>v. if v = JObj [(''data'', JObj [(''alertBody'', JStr ''hi'')])]
             then JObj [(''data'', JObj [(''alertBody'', JStr ''bye'')])] else v)\<rparr>"

definition example_config :: config where
  "example_config =
     \<lparr>apiId = ''key-id'', apiSecret = ''c2VjcmV0'', host = None, port = None, timeout = Some 5000\<rparr>"

definition example_get :: sent where
  "example_get = the (sendRequest example_env example_config ''GET'' ''/channels/c1'' Null)"

definition example_article :: jsval where
  "example_article = JObj [(''title'', JStr ''Hello'')]"

definition example_post :: sent where
  "example_post =
     the (issued (makeRequest example_env example_config ''POST'' ''/channels/c1/articles''
                    \<lparr>formData = example_article\<rparr>))"

definition example_alert :: jsval where
  "example_alert = JObj [(''data'', JObj [(''alertBody'', JStr ''hi'')])]"

section \<open>Properties\<close>

subsection \<open>Decimal digits\<close>

lemma String_nat_404: "String_nat 404 = ''404''"
  by (simp add: String_nat.simps digit_char_def)

lemma status_2xx_first_digit:
  assumes "200 \<le> n" "n < 300"
  shows "take 1 (String_nat n) = ''2''"
proof -
  have a: "n div 10 div 10 = 2" using assms by simp
  have b: "\<not> n < 10" "\<not> n div 10 < 10" using assms by simp_all
  have "String_nat n = String_nat 2 @ [digit_char (n div 10 mod 10)] @ [digit_char (n mod 10)]"
    using b a by (simp add: String_nat.simps [of n] String_nat.simps [of "n div 10"])
  then show ?thesis by (simp add: String_nat.simps [of 2] digit_char_def)
qed

subsection \<open>Signing\<close>

lemma authorization_eq:
  "authorization env config d canonical = authorization_spec env (apiId config) (apiSecret config) d canonical"
  by (simp add: authorization_def authorization_spec_def Let_def)

lemma isAlert_encoded: "\<not> isAlert (encoded_val e)"
  by (simp add: isAlert_def encoded_val_def)

lemma truthy_encoded: "truthy (encoded_val e)"
  by (simp add: encoded_val_def)

lemma isAlert_nested:
  "truthy (property (property fd ''data'') ''alertBody'') \<Longrightarrow> isAlert fd"
  by (cases fd; cases "property fd ''data''") (auto simp add: isAlert_def)

lemma isAlert_iff: "isAlert fd \<longleftrightarrow> alert_notification fd"
  using isAlert_nested [of fd] by (auto simp add: isAlert_def alert_notification_def)

lemma headers_Null: "payload_headers_of env Null = JObj []"
  by (simp add: payload_headers_of_def)

lemma headers_alert:
  "isAlert post \<Longrightarrow> payload_headers_of env post =
     JObj [(''content-type'', JStr ''application/json''),
           (''content-length'', JNum (real (length (utf8 env (stringify env post)))))]"
  by (simp add: payload_headers_of_def isAlert_def)

lemma headers_encoded:
  "payload_headers_of env (encoded_val e) = JObj (map (\<lambda>(k, s). (k, JStr s)) (headers e))"
  by (simp add: payload_headers_of_def isAlert_encoded truthy_encoded) (simp add: encoded_val_def)

lemma payload_Null: "payload_bytes env Null = Some None"
  by (simp add: payload_bytes_def)

lemma payload_alert: "isAlert post \<Longrightarrow> payload_bytes env post = Some (Some (utf8 env (stringify env post)))"
  by (simp add: payload_bytes_def isAlert_def)

lemma payload_encoded: "payload_bytes env (encoded_val e) = Some (Some (buffer e))"
  by (simp add: payload_bytes_def isAlert_encoded truthy_encoded) (simp add: encoded_val_def)

lemma written_Null: "body_written env Null = Some None"
  by (simp add: body_written_def)

lemma written_alert:
  "isAlert post \<Longrightarrow> body_written env post = Some (Some (utf8 env (stringify env (at_write env post))))"
  by (simp add: body_written_def isAlert_def)

lemma map_of_JStr:
  "map_of (map (\<lambda>(k, s). (k, JStr s)) hs) k = map_option JStr (map_of hs k)"
  by (induction hs) auto

lemma sendRequest_fields:
  assumes "sendRequest env config meth endpoint post = Some r"
  shows "\<exists>ct body.
     get (payload_headers_of env post) ''content-type'' = Some ct \<and>
     payload_bytes env post = Some body \<and>
     canonicalRequest r =
       ascii meth @ ascii ''https://'' @ ascii (host_of config) @ ascii endpoint @ ascii (now env) @
       ascii (if truthy ct then str_plus env ct else []) @ (case body of None \<Rightarrow> [] | Some b \<Rightarrow> b)"
   and "auth r = authorization env config (now env) (canonicalRequest r)"
   and "date r = now env"
   and "payload_headers r = payload_headers_of env post"
   and "opts_headers (opts r) =
          objectAssign [''Accept'' \<mapsto> JStr ''application/json'', ''Authorization'' \<mapsto> JStr (auth r)]
            (payload_headers_of env post)"
   and "opts_method (opts r) = meth" and "opts_host (opts r) = host_of config" and "path (opts r) = endpoint"
   and "rejectUnauthorized (opts r) = (NODE_ENV env \<noteq> Some ''test'')"
   and "set_timeout r = (case timeout config of None \<Rightarrow> 0 | Some t \<Rightarrow> t)"
   and "written r = (case body_written env post of None \<Rightarrow> None | Some w \<Rightarrow> w)"
   and "ended r = (body_written env post \<noteq> None)"
   and "stringified r = (if isAlert post then [post, post, at_write env post] else [])"
   and "https_accepts env (opts r)"
proof -
  from assms obtain ct body where
    ct: "get (payload_headers_of env post) ''content-type'' = Some ct" and
    body: "payload_bytes env post = Some body"
    by (auto simp add: sendRequest_def Let_def split: Option.bind_splits)
  let ?canonical = "case body of None \<Rightarrow>
        ascii (meth @ ''https://'' @ host_of config @ endpoint @ now env @ (if truthy ct then str_plus env ct else []))
      | Some b \<Rightarrow>
        ascii (meth @ ''https://'' @ host_of config @ endpoint @ now env @ (if truthy ct then str_plus env ct else [])) @ b"
  let ?o = "request_opts env config meth endpoint (payload_headers_of env post)
              (authorization env config (now env) ?canonical)"
  have acc: "https_accepts env ?o"
  proof (rule ccontr)
    assume n: "\<not> https_accepts env ?o"
    have "sendRequest env config meth endpoint post = None"
      unfolding sendRequest_def Let_def ct body Option.bind.simps using n by simp
    with assms show False by simp
  qed
  have eq: "sendRequest env config meth endpoint post = Some X \<Longrightarrow> r = X" for X
    using assms by simp
  note r' = eq [unfolded sendRequest_def Let_def ct body Option.bind.simps if_P [OF acc], OF refl]
  show "\<exists>ct body.
     get (payload_headers_of env post) ''content-type'' = Some ct \<and>
     payload_bytes env post = Some body \<and>
     canonicalRequest r =
       ascii meth @ ascii ''https://'' @ ascii (host_of config) @ ascii endpoint @ ascii (now env) @
       ascii (if truthy ct then str_plus env ct else []) @ (case body of None \<Rightarrow> [] | Some b \<Rightarrow> b)"
    using ct body by (simp add: r' ascii_def split: option.splits)
  show "auth r = authorization env config (now env) (canonicalRequest r)" by (simp add: r')
  show "date r = now env" by (simp add: r')
  show "payload_headers r = payload_headers_of env post" by (simp add: r')
  show "opts_headers (opts r) =
          objectAssign [''Accept'' \<mapsto> JStr ''application/json'', ''Authorization'' \<mapsto> JStr (auth r)]
            (payload_headers_of env post)" by (simp add: r' request_opts_def)
  show "opts_method (opts r) = meth" by (simp add: r' request_opts_def)
  show "opts_host (opts r) = host_of config" by (simp add: r' request_opts_def)
  show "path (opts r) = endpoint" by (simp add: r' request_opts_def)
  show "rejectUnauthorized (opts r) = (NODE_ENV env \<noteq> Some ''test'')" by (simp add: r' request_opts_def)
  show "set_timeout r = (case timeout config of None \<Rightarrow> 0 | Some t \<Rightarrow> t)" by (simp add: r')
  show "written r = (case body_written env post of None \<Rightarrow> None | Some w \<Rightarrow> w)" by (simp add: r')
  show "ended r = (body_written env post \<noteq> None)" by (simp add: r')
  show "stringified r = (if isAlert post then [post, post, at_write env post] else [])" by (simp add: r')
  show "https_accepts env (opts r)" using acc by (simp add: r')
qed

lemma signed_Null:
  assumes "sendRequest env config meth endpoint Null = Some r"
  shows "signed_with env config meth endpoint None None r"
proof -
  note f = sendRequest_fields [OF assms]
  from f(1) have c: "canonicalRequest r =
      ascii meth @ ascii ''https://'' @ ascii (host_of config) @ ascii endpoint @ ascii (now env)"
    by (auto simp add: headers_Null payload_Null ascii_def)
  have h: "opts_headers (opts r) = [''Accept'' \<mapsto> JStr ''application/json'', ''Authorization'' \<mapsto> JStr (auth r)]"
    by (simp add: f(5) headers_Null objectAssign_def)
  show ?thesis
    unfolding signed_with_def
    by (simp add: c f(2,3,6,7,8) authorization_eq [symmetric] canonical_spec_def ascii_def h)
qed

lemma signed_alert:
  assumes "isAlert post" "sendRequest env config meth endpoint post = Some r"
  shows "signed_with env config meth endpoint
           (Some ''application/json'') (Some (utf8 env (stringify env post))) r"
proof -
  note f = sendRequest_fields [OF assms(2)]
  from f(1) have c: "canonicalRequest r =
      ascii meth @ ascii ''https://'' @ ascii (host_of config) @ ascii endpoint @ ascii (now env) @
      ascii ''application/json'' @ utf8 env (stringify env post)"
    by (auto simp add: headers_alert [OF assms(1)] payload_alert [OF assms(1)] str_plus_def)
  have h: "opts_headers (opts r) = [''Accept'' \<mapsto> JStr ''application/json'', ''Authorization'' \<mapsto> JStr (auth r),
         ''content-length'' \<mapsto> JNum (real (length (utf8 env (stringify env post)))),
         ''content-type'' \<mapsto> JStr ''application/json'']"
    by (simp add: f(5) headers_alert [OF assms(1)] objectAssign_def)
  have p: "property (payload_headers r) ''Authorization'' = Undefined"
    by (simp add: f(4) headers_alert [OF assms(1)])
  show ?thesis
    unfolding signed_with_def
    by (simp add: c f(2,3,6,7,8) authorization_eq [symmetric] canonical_spec_def ascii_def h)
qed

lemma signed_encoded:
  assumes "sendRequest env config meth endpoint (encoded_val e) = Some r"
  shows "signed_with env config meth endpoint
           (map_of (headers e) ''content-type'') (Some (buffer e)) r"
proof -
  note f = sendRequest_fields [OF assms]
  let ?ct = "map_of (headers e) ''content-type''"
  from f(1) have c: "canonicalRequest r =
      ascii meth @ ascii ''https://'' @ ascii (host_of config) @ ascii endpoint @ ascii (now env) @
      (case ?ct of None \<Rightarrow> [] | Some s \<Rightarrow> ascii s) @ buffer e"
    by (auto simp add: headers_encoded payload_encoded str_plus_def map_of_JStr ascii_def
          split: option.splits)
  have h: "opts_headers (opts r) = [''Accept'' \<mapsto> JStr ''application/json'', ''Authorization'' \<mapsto> JStr (auth r)]
        ++ map_of (map (\<lambda>(k, s). (k, JStr s)) (headers e))"
    by (simp add: f(5) headers_encoded objectAssign_def)
  have hct: "opts_headers (opts r) ''content-type'' = map_option JStr ?ct"
    by (simp add: h map_add_def map_of_JStr split: option.splits)
  have a: "property (payload_headers r) ''Authorization'' = Undefined \<Longrightarrow>
        opts_headers (opts r) ''Authorization'' = Some (JStr (auth r))"
    by (simp add: f(4) headers_encoded h map_add_def map_of_JStr split: option.splits)
  show ?thesis
    unfolding signed_with_def
    using a by (simp add: c hct f(2,3,6,7,8) authorization_eq [symmetric] canonical_spec_def ascii_def)
qed

text \<open>The three calls of \<^verbatim>\<open>sendRequest\<close> in \<^verbatim>\<open>makeRequest\<close>.\<close>

lemma makeRequest_Issued_cases:
  assumes "makeRequest env config meth endpoint ro = Issued a r"
  shows "(\<not> (meth = ''POST'' \<and> truthy (formData ro)) \<and> a = None \<and>
            sendRequest env config meth endpoint Null = Some r) \<or>
         (meth = ''POST'' \<and> truthy (formData ro) \<and> alert_notification (formData ro) \<and> a = None \<and>
            sendRequest env config meth endpoint (formData ro) = Some r) \<or>
         (meth = ''POST'' \<and> truthy (formData ro) \<and> \<not> alert_notification (formData ro) \<and>
            a = Some (formData ro) \<and>
            (\<exists>e. encodeFormData env (formData ro) = Inr e \<and>
                 sendRequest env config meth endpoint (encoded_val e) = Some r))"
proof (cases "meth = ''POST'' \<and> truthy (formData ro)")
  case False
  with assms show ?thesis
    by (auto simp add: makeRequest_def send_def split: option.splits)
next
  case True
  show ?thesis
  proof (cases "alert_notification (formData ro)")
    case al: True
    then have "truthy (property (formData ro) ''data'')"
      using isAlert_iff [of "formData ro"] by (simp add: isAlert_def)
    with assms True al show ?thesis
      by (auto simp add: makeRequest_def send_def alert_notification_def split: option.splits)
  next
    case nal: False
    with assms True show ?thesis
      by (auto simp add: makeRequest_def send_def alert_notification_def Let_def
            split: option.splits sum.splits)
  qed
qed

lemma makeRequest_Issued:
  assumes "makeRequest env config meth endpoint ro = Issued a r"
  shows "\<exists>post. sendRequest env config meth endpoint post = Some r"
  using makeRequest_Issued_cases [OF assms] by blast

lemma makeRequest_signed:
  assumes "makeRequest env config meth endpoint ro = Issued a r"
  shows "signed_with env config meth endpoint
           (Option.bind (payload_spec env meth (formData ro)) fst)
           (map_option snd (payload_spec env meth (formData ro))) r"
  using makeRequest_Issued_cases [OF assms]
proof (elim disjE conjE exE)
  assume n: "\<not> (meth = ''POST'' \<and> truthy (formData ro))"
    and s: "sendRequest env config meth endpoint Null = Some r"
  from n have "payload_spec env meth (formData ro) = None"
    by (auto simp add: payload_spec_def)
  then show ?thesis using signed_Null [OF s] by simp
next
  assume c: "meth = ''POST''" "truthy (formData ro)" "alert_notification (formData ro)"
    and s: "sendRequest env config meth endpoint (formData ro) = Some r"
  from c have "payload_spec env meth (formData ro) =
      Some (Some ''application/json'', utf8 env (stringify env (formData ro)))"
    by (simp add: payload_spec_def)
  moreover from c(3) have "isAlert (formData ro)" by (simp add: isAlert_iff)
  ultimately show ?thesis using signed_alert [OF _ s] by simp
next
  fix e
  assume c: "meth = ''POST''" "truthy (formData ro)" "\<not> alert_notification (formData ro)"
    and e: "encodeFormData env (formData ro) = Inr e"
    and s: "sendRequest env config meth endpoint (encoded_val e) = Some r"
  from c e have "payload_spec env meth (formData ro) =
      Some (map_of (headers e) ''content-type'', buffer e)"
    by (simp add: payload_spec_def)
  then show ?thesis using signed_encoded [OF s] by simp
qed

text \<open>
  C1. Every request that \<^verbatim>\<open>makeRequest\<close> issues is signed as the specification says over
  the payload it is given: the canonical request is the method, \<^verbatim>\<open>https://\<close> and the host,
  the path, the timestamp, the content type that comes with the payload if there is one
  (it is then the \<^verbatim>\<open>content-type\<close> header sent), and the bytes of the payload if there is
  one: the UTF-8 bytes of the JSON text of an alert, the buffer of the encoder otherwise.
  The computed \<^verbatim>\<open>Authorization\<close> value is
  \<^verbatim>\<open>HHMAC; key="<apiId>"; signature="<s>"; date="<timestamp>"\<close> with \<open>s\<close> the base64 text of
  the HMAC-SHA256 of the canonical request under the decoded secret, and with the same
  timestamp as the canonical request.
\<close>

theorem signing_canonical_request:
  assumes "makeRequest env config meth endpoint ro = Issued a r"
  shows "canonicalRequest r =
           canonical_spec meth (host_of config) endpoint (date r)
             (Option.bind (payload_spec env meth (formData ro)) fst)
             (map_option snd (payload_spec env meth (formData ro))) \<and>
         auth r = authorization_spec env (apiId config) (apiSecret config) (date r) (canonicalRequest r) \<and>
         date r = now env \<and>
         opts_headers (opts r) ''content-type'' =
           map_option JStr (Option.bind (payload_spec env meth (formData ro)) fst) \<and>
         opts_method (opts r) = meth \<and> opts_host (opts r) = host_of config \<and> path (opts r) = endpoint"
  using makeRequest_signed [OF assms] by (simp add: signed_with_def)

text \<open>
  The value computed is the \<^verbatim>\<open>Authorization\<close> header sent, unless the headers that come with
  the payload have an \<^verbatim>\<open>Authorization\<close> of their own, which \<^verbatim>\<open>object-assign\<close> lets win.
\<close>

lemma authorization_header_sent:
  assumes "makeRequest env config meth endpoint ro = Issued a r"
      and "property (payload_headers r) ''Authorization'' = Undefined"
  shows "opts_headers (opts r) ''Authorization'' = Some (JStr (auth r))"
  using makeRequest_signed [OF assms(1)] assms(2) by (simp add: signed_with_def)

lemma example_get_sent:
  "sendRequest example_env example_config ''GET'' ''/channels/c1'' Null = Some example_get"
proof -
  have "sendRequest example_env example_config ''GET'' ''/channels/c1'' Null \<noteq> None"
    by (simp add: sendRequest_def headers_Null payload_Null Let_def request_opts_def example_env_def)
  then show ?thesis by (simp add: example_get_def)
qed

lemma example_post_issued:
  "makeRequest example_env example_config ''POST'' ''/channels/c1/articles''
     \<lparr>formData = example_article\<rparr> = Issued (Some example_article) example_post"
proof -
  let ?e = "\<lparr>buffer = ascii ''--b {} --b--'',
             headers = [(''content-type'', ''multipart/form-data; boundary=b'')]\<rparr>"
  have enc: "encodeFormData example_env example_article = Inr ?e"
    by (simp add: example_env_def example_encode_def example_article_def example_stringify_def)
  have acc: "https_accepts example_env ropts = (CHR '' '' \<notin> set (path ropts))" for ropts
    by (simp add: example_env_def)
  have "sendRequest example_env example_config ''POST'' ''/channels/c1/articles'' (encoded_val ?e) \<noteq> None"
    by (simp add: sendRequest_def headers_encoded payload_encoded Let_def request_opts_def acc)
  then obtain r where
    r: "sendRequest example_env example_config ''POST'' ''/channels/c1/articles'' (encoded_val ?e) = Some r"
    by blast
  have m: "makeRequest example_env example_config ''POST'' ''/channels/c1/articles''
     \<lparr>formData = example_article\<rparr> = Issued (Some example_article) r"
    by (simp add: makeRequest_def send_def enc r) (simp add: example_article_def)
  then show ?thesis by (simp add: example_post_def)
qed

theorem signing_canonical_request_witness:
  "makeRequest example_env example_config ''POST'' ''/channels/c1/articles''
     \<lparr>formData = example_article\<rparr> = Issued (Some example_article) example_post \<and>
   payload_spec example_env ''POST'' example_article =
     Some (Some ''multipart/form-data; boundary=b'', ascii ''--b {} --b--'') \<and>
   canonicalRequest example_post =
     ascii (''POSThttps://news-api.apple.com/channels/c1/articles2024-01-02T03:04:05Z'' @
            ''multipart/form-data; boundary=b'' @ ''--b {} --b--'') \<and>
   auth example_post =
     authorization_spec example_env ''key-id'' ''c2VjcmV0'' ''2024-01-02T03:04:05Z''
       (canonicalRequest example_post) \<and>
   opts_headers (opts example_post) ''content-type'' = Some (JStr ''multipart/form-data; boundary=b'')"
proof -
  have p: "payload_spec example_env ''POST'' example_article =
     Some (Some ''multipart/form-data; boundary=b'', ascii ''--b {} --b--'')"
    by (simp add: payload_spec_def alert_notification_def example_env_def example_encode_def
          example_article_def example_stringify_def)
  note t = signing_canonical_request [OF example_post_issued]
  have n: "now example_env = ''2024-01-02T03:04:05Z''" by (simp add: example_env_def)
  from t have d: "date example_post = ''2024-01-02T03:04:05Z''" by (simp add: n)
  from t show ?thesis
    using example_post_issued
    by (simp add: p d n canonical_spec_def host_of_def example_config_def defaultHost_def ascii_def)
qed

subsection \<open>The status gate\<close>

lemma String_nat_examples:
  "String_nat 200 = ''200''" "String_nat 201 = ''201''" "String_nat 204 = ''204''"
  "String_nat 400 = ''400''" "String_nat 5000 = ''5000''"
  by (simp_all add: String_nat.simps digit_char_def)

lemma on_end_ReplyOk:
  "on_end env resp txt = Some (ReplyOk resp' body) \<Longrightarrow> resp' = resp"
  by (auto simp add: on_end_def split: if_splits sum.splits Option.bind_splits)

lemma status_error_contains:
  "sublist meth (message (status_error meth endpoint resp))"
  "sublist endpoint (message (status_error meth endpoint resp))"
  "sublist (String_nat (statusCode resp)) (message (status_error meth endpoint resp))"
proof -
  let ?n = "String_nat (statusCode resp)"
  show "sublist meth (message (status_error meth endpoint resp))"
    using sublist_appendI [of meth "[]"] by (simp add: status_error_def)
  show "sublist endpoint (message (status_error meth endpoint resp))"
    using sublist_appendI [of endpoint "meth @ '' ''" "'' code '' @ ?n"]
    by (simp add: status_error_def)
  show "sublist ?n (message (status_error meth endpoint resp))"
    using sublist_appendI [of ?n "meth @ '' '' @ endpoint @ '' code ''" "[]"]
    by (simp add: status_error_def)
qed

text \<open>
  C2, as stated, fails: with status 400 and a body in the \<^verbatim>\<open>errors\<close> envelope the error the
  caller receives is the one made from the body, and its message, the raw text, contains
  neither the method nor the status code.
\<close>

theorem non_2xx_message_counterexample:
  \<open>take 1 (String_nat 400) \<noteq> ''2'' \<and>
   finish example_env ''GET'' ''/channels/c1'' \<lparr>statusCode = 400\<rparr>
       ''{"errors":[{"code":"X","message":"m"}]}'' =
     Some (Failure (Err ''{"errors":[{"code":"X","message":"m"}]}'' None
                      (Some (JObj [(''code'', JStr ''X''), (''message'', JStr ''m'')])))) \<and>
   \<not> sublist ''GET'' ''{"errors":[{"code":"X","message":"m"}]}'' \<and>
   \<not> sublist ''400'' ''{"errors":[{"code":"X","message":"m"}]}''\<close>
  by (simp add: String_nat_examples finish_def on_end_def example_env_def example_parse_def
        sublist_code)

text \<open>
  C2, amended. When the response ends with a status whose first digit is not \<open>2\<close> and the
  handler calls back, the caller receives an error: the error \<^verbatim>\<open>sendRequest\<close> reports if it
  reports one (unparsable body, body without a truthy \<^verbatim>\<open>data\<close>), and otherwise (empty body,
  truthy \<^verbatim>\<open>data\<close>) the status error, whose message is the method, the endpoint and the
  status code.
\<close>

theorem non_2xx_is_error:
  assumes "take 1 (String_nat (statusCode resp)) \<noteq> ''2''"
      and "on_end env resp txt = Some rep"
  shows "finish env meth endpoint resp txt =
           Some (Failure (case rep of
                            ReplyErr e \<Rightarrow> e
                          | ReplyOk resp' body \<Rightarrow> status_error meth endpoint resp)) \<and>
         message (status_error meth endpoint resp) =
           meth @ '' '' @ endpoint @ '' code '' @ String_nat (statusCode resp) \<and>
         sublist meth (message (status_error meth endpoint resp)) \<and>
         sublist endpoint (message (status_error meth endpoint resp)) \<and>
         sublist (String_nat (statusCode resp)) (message (status_error meth endpoint resp))"
proof -
  have "finish env meth endpoint resp txt =
           Some (Failure (case rep of
                            ReplyErr e \<Rightarrow> e
                          | ReplyOk resp' body \<Rightarrow> status_error meth endpoint resp))"
  proof (cases rep)
    case (ReplyErr e)
    then show ?thesis using assms(2) by (simp add: finish_def)
  next
    case (ReplyOk resp' body)
    with assms(2) have "resp' = resp" by (simp add: on_end_ReplyOk)
    then show ?thesis using assms ReplyOk by (simp add: finish_def)
  qed
  then show ?thesis
    using status_error_contains [where meth = meth and endpoint = endpoint and resp = resp] by (simp add: status_error_def)
qed

theorem non_2xx_is_error_witness:
  \<open>take 1 (String_nat (statusCode \<lparr>statusCode = 404\<rparr>)) \<noteq> ''2'' \<and>
   on_end example_env \<lparr>statusCode = 404\<rparr> ''{"data":{"id":"123"}}'' =
     Some (ReplyOk \<lparr>statusCode = 404\<rparr> (JObj [(''id'', JStr ''123'')])) \<and>
   finish example_env ''GET'' ''/channels/c1'' \<lparr>statusCode = 404\<rparr> ''{"data":{"id":"123"}}'' =
     Some (Failure (Error ''GET /channels/c1 code 404''))\<close>
proof -
  have a: "take 1 (String_nat (statusCode \<lparr>statusCode = 404\<rparr>)) \<noteq> ''2''"
    by (simp add: String_nat_404)
  have b: \<open>on_end example_env \<lparr>statusCode = 404\<rparr> ''{"data":{"id":"123"}}'' =
     Some (ReplyOk \<lparr>statusCode = 404\<rparr> (JObj [(''id'', JStr ''123'')]))\<close>
    by (simp add: on_end_def example_env_def example_parse_def)
  from non_2xx_is_error [OF a b, where meth = "''GET''" and endpoint = "''/channels/c1''"] show ?thesis
    using a b by (simp add: status_error_def String_nat_404)
qed

subsection \<open>Classification of the body\<close>

text \<open>
  C3, as stated, fails: a body that parses to an object whose \<^verbatim>\<open>data\<close> field is \<^verbatim>\<open>null\<close>, with
  status 200, is reported as an error with the raw text, not as success with \<^verbatim>\<open>null\<close>.
\<close>

theorem falsy_data_counterexample:
  \<open>parse example_env ''{"data":null}'' = Inr (JObj [(''data'', Null)]) \<and>
   take 1 (String_nat 200) = ''2'' \<and>
   finish example_env ''GET'' ''/channels/c1'' \<lparr>statusCode = 200\<rparr> ''{"data":null}'' =
     Some (Failure (Error ''{"data":null}''))\<close>
  by (simp add: String_nat_examples finish_def on_end_def example_env_def example_parse_def)

text \<open>
  C3, amended. When the body parses to an object whose \<^verbatim>\<open>data\<close> field has a truthy value
  (not \<^verbatim>\<open>null\<close>, \<^verbatim>\<open>false\<close>, \<open>0\<close> or the empty string) and the first digit of the status code is
  \<open>2\<close>, the caller receives success with exactly that value.
\<close>

theorem data_field_is_success:
  assumes "txt \<noteq> []"
      and "parse env txt = Inr (JObj fs)"
      and "map_of fs ''data'' = Some d"
      and "truthy d"
      and "take 1 (String_nat (statusCode resp)) = ''2''"
  shows "finish env meth endpoint resp txt = Some (Success d)"
  using assms by (simp add: finish_def on_end_def)

theorem data_field_is_success_witness:
  \<open>''{"data":{"id":"123"}}'' \<noteq> [] \<and>
   parse example_env ''{"data":{"id":"123"}}'' = Inr (JObj [(''data'', JObj [(''id'', JStr ''123'')])]) \<and>
   map_of [(''data'', JObj [(''id'', JStr ''123'')])] ''data'' = Some (JObj [(''id'', JStr ''123'')]) \<and>
   truthy (JObj [(''id'', JStr ''123'')]) \<and>
   take 1 (String_nat (statusCode \<lparr>statusCode = 201\<rparr>)) = ''2'' \<and>
   finish example_env ''POST'' ''/channels/c1/articles'' \<lparr>statusCode = 201\<rparr> ''{"data":{"id":"123"}}'' =
     Some (Success (JObj [(''id'', JStr ''123'')]))\<close>
proof -
  have a: \<open>''{"data":{"id":"123"}}'' \<noteq> []\<close> by simp
  have b: \<open>parse example_env ''{"data":{"id":"123"}}'' = Inr (JObj [(''data'', JObj [(''id'', JStr ''123'')])])\<close>
    by (simp add: example_env_def example_parse_def)
  have c: "map_of [(''data'', JObj [(''id'', JStr ''123'')])] ''data'' = Some (JObj [(''id'', JStr ''123'')])"
    by simp
  have d: "truthy (JObj [(''id'', JStr ''123'')])" by simp
  have e: "take 1 (String_nat (statusCode \<lparr>statusCode = 201\<rparr>)) = ''2''"
    by (simp add: String_nat_examples)
  from data_field_is_success [OF a b c d e, where meth = "''POST''" and endpoint = "''/channels/c1/articles''"]
  show ?thesis using a b c d e by blast
qed

text \<open>
  C5, as stated, fails: when the first element of \<^verbatim>\<open>errors\<close> carries a \<^verbatim>\<open>code\<close> that is the
  empty string, the error has the raw text as message and no structured detail.
\<close>

theorem falsy_code_counterexample:
  \<open>parse example_env ''{"errors":[{"code":""}]}'' =
     Inr (JObj [(''errors'', JArr [JObj [(''code'', JStr [])]])]) \<and>
   finish example_env ''POST'' ''/channels/c1/articles'' \<lparr>statusCode = 400\<rparr> ''{"errors":[{"code":""}]}'' =
     Some (Failure (Err ''{"errors":[{"code":""}]}'' None None))\<close>
  by (simp add: finish_def on_end_def example_env_def example_parse_def)

text \<open>
  C5, amended. When the body parses to an object without a truthy \<^verbatim>\<open>data\<close> field whose
  \<^verbatim>\<open>errors\<close> field is a non-empty array, and the \<^verbatim>\<open>code\<close> of its first element is truthy, the
  caller receives an error whose message is the raw text and whose \<^verbatim>\<open>apiError\<close> is that first
  element.
\<close>

theorem structured_api_error:
  assumes "txt \<noteq> []"
      and "parse env txt = Inr (JObj fs)"
      and "\<not> truthy (property (JObj fs) ''data'')"
      and "map_of fs ''errors'' = Some (JArr (e0 # es))"
      and "get e0 ''code'' = Some c"
      and "truthy c"
  shows "finish env meth endpoint resp txt = Some (Failure (Err txt None (Some e0)))"
  using assms by (simp add: finish_def on_end_def)

theorem structured_api_error_witness:
  \<open>''{"errors":[{"code":"X","message":"m"}]}'' \<noteq> [] \<and>
   parse example_env ''{"errors":[{"code":"X","message":"m"}]}'' =
     Inr (JObj [(''errors'', JArr [JObj [(''code'', JStr ''X''), (''message'', JStr ''m'')]])]) \<and>
   \<not> truthy (property (JObj [(''errors'', JArr [JObj [(''code'', JStr ''X''), (''message'', JStr ''m'')]])]) ''data'') \<and>
   map_of [(''errors'', JArr [JObj [(''code'', JStr ''X''), (''message'', JStr ''m'')]])] ''errors'' =
     Some (JArr [JObj [(''code'', JStr ''X''), (''message'', JStr ''m'')]]) \<and>
   get (JObj [(''code'', JStr ''X''), (''message'', JStr ''m'')]) ''code'' = Some (JStr ''X'') \<and>
   truthy (JStr ''X'') \<and>
   finish example_env ''POST'' ''/channels/c1/articles'' \<lparr>statusCode = 400\<rparr>
       ''{"errors":[{"code":"X","message":"m"}]}'' =
     Some (Failure (Err ''{"errors":[{"code":"X","message":"m"}]}'' None
                      (Some (JObj [(''code'', JStr ''X''), (''message'', JStr ''m'')]))))\<close>
proof -
  have a: \<open>''{"errors":[{"code":"X","message":"m"}]}'' \<noteq> []\<close> by simp
  have b: \<open>parse example_env ''{"errors":[{"code":"X","message":"m"}]}'' =
     Inr (JObj [(''errors'', JArr [JObj [(''code'', JStr ''X''), (''message'', JStr ''m'')]])])\<close>
    by (simp add: example_env_def example_parse_def)
  have c: "\<not> truthy (property (JObj [(''errors'', JArr [JObj [(''code'', JStr ''X''), (''message'', JStr ''m'')]])]) ''data'')"
    by simp
  have d: "map_of [(''errors'', JArr [JObj [(''code'', JStr ''X''), (''message'', JStr ''m'')]])] ''errors'' =
     Some (JArr [JObj [(''code'', JStr ''X''), (''message'', JStr ''m'')]])"
    by simp
  have e: "get (JObj [(''code'', JStr ''X''), (''message'', JStr ''m'')]) ''code'' = Some (JStr ''X'')"
    by simp
  have f: "truthy (JStr ''X'')" by simp
  from structured_api_error [OF a b c d e f, where meth = "''POST''" and endpoint = "''/channels/c1/articles''"]
  show ?thesis using a b c d e f by blast
qed

subsection \<open>Payload dispatch\<close>

lemma encoder_arg_send: "encoder_arg (send a x) = a"
  by (cases x) (simp_all add: send_def)

lemma issued_send: "issued (send a x) = x"
  by (cases x) (simp_all add: send_def)

lemma makeRequest_alert:
  assumes "truthy (property (property fd ''data'') ''alertBody'')"
  shows "makeRequest env config ''POST'' endpoint \<lparr>formData = fd\<rparr> =
           send None (sendRequest env config ''POST'' endpoint fd)"
proof -
  have "isAlert fd" using assms by (rule isAlert_nested)
  then show ?thesis using assms by (simp add: makeRequest_def isAlert_def)
qed

lemma example_alert_truthy:
  "truthy (property (property example_alert ''data'') ''alertBody'')"
  by (simp add: example_alert_def)

lemma example_alert_sent:
  assumes "https_accepts env = (\<lambda>ropts. CHR '' '' \<notin> set (path ropts))"
  shows "\<exists>r. sendRequest env example_config ''POST'' ''/channels/c1/notifications'' example_alert = Some r"
proof -
  have al: "isAlert example_alert" using example_alert_truthy by (rule isAlert_nested)
  have "sendRequest env example_config ''POST'' ''/channels/c1/notifications'' example_alert \<noteq> None"
    by (simp add: sendRequest_def headers_alert [OF al] payload_alert [OF al] Let_def
          request_opts_def assms)
  then show ?thesis by blast
qed

text \<open>
  C6, as stated, fails in four ways. A payload whose \<^verbatim>\<open>alertBody\<close> under \<^verbatim>\<open>data\<close> is the empty
  string has the field, and is handed to the form-data encoder. An alert is serialized
  three times, not once: for the content-length, for the signature, and again when the
  body is written. That last call runs after the \<^verbatim>\<open>await\<close>: when the caller has changed its
  payload from \<^verbatim>\<open>hi\<close> to \<^verbatim>\<open>bye\<close> in between, the bytes signed are those of \<^verbatim>\<open>hi\<close> and the
  bytes written those of \<^verbatim>\<open>bye\<close>. And when \<^verbatim>\<open>https.request\<close> refuses the options (here a
  path with a space), no headers are sent and nothing is written.
\<close>

theorem alert_payload_counterexample:
  \<open>encoder_arg (makeRequest example_env example_config ''POST'' ''/channels/c1/notifications''
      \<lparr>formData = JObj [(''data'', JObj [(''alertBody'', JStr [])])]\<rparr>) =
     Some (JObj [(''data'', JObj [(''alertBody'', JStr [])])]) \<and>
   map_option stringified
     (issued (makeRequest example_env example_config ''POST'' ''/channels/c1/notifications''
        \<lparr>formData = example_alert\<rparr>)) =
     Some [example_alert, example_alert, example_alert] \<and>
   map_option canonicalRequest
     (issued (makeRequest example_env_changing example_config ''POST'' ''/channels/c1/notifications''
        \<lparr>formData = example_alert\<rparr>)) =
     Some (ascii (''POSThttps://news-api.apple.com/channels/c1/notifications2024-01-02T03:04:05Z'' @
                  ''application/json'' @ ''{"data":{"alertBody":"hi"}}'')) \<and>
   map_option written
     (issued (makeRequest example_env_changing example_config ''POST'' ''/channels/c1/notifications''
        \<lparr>formData = example_alert\<rparr>)) =
     Some (Some (ascii ''{"data":{"alertBody":"bye"}}'')) \<and>
   makeRequest example_env example_config ''POST'' ''/channels/c1/a b''
     \<lparr>formData = example_alert\<rparr> = Thrown None\<close>
proof -
  let ?ep = "''/channels/c1/notifications''"
  have al: "isAlert example_alert" using example_alert_truthy by (rule isAlert_nested)
  have a: "encoder_arg (makeRequest example_env example_config ''POST'' ?ep
      \<lparr>formData = JObj [(''data'', JObj [(''alertBody'', JStr [])])]\<rparr>) =
     Some (JObj [(''data'', JObj [(''alertBody'', JStr [])])])"
    by (simp add: makeRequest_def encoder_arg_send example_env_def example_encode_def Let_def)
  have acc1: "https_accepts example_env = (\<lambda>ropts. CHR '' '' \<notin> set (path ropts))"
    and acc2: "https_accepts example_env_changing = (\<lambda>ropts. CHR '' '' \<notin> set (path ropts))"
    by (simp_all add: example_env_def example_env_changing_def)
  have id: "at_write example_env example_alert = example_alert"
    by (simp add: example_env_def)
  have ch: "at_write example_env_changing example_alert =
      JObj [(''data'', JObj [(''alertBody'', JStr ''bye'')])]"
    by (simp add: example_env_changing_def example_alert_def)
  have s1: \<open>utf8 example_env_changing (stringify example_env_changing example_alert) =
      ascii ''{"data":{"alertBody":"hi"}}''\<close>
    by (simp add: example_env_changing_def example_env_def example_stringify_def example_alert_def
          ascii_def)
  have s2: \<open>utf8 example_env_changing
        (stringify example_env_changing (JObj [(''data'', JObj [(''alertBody'', JStr ''bye'')])])) =
      ascii ''{"data":{"alertBody":"bye"}}''\<close>
    by (simp add: example_env_changing_def example_env_def example_stringify_def ascii_def)
  have n: "now example_env_changing = ''2024-01-02T03:04:05Z''"
    by (simp add: example_env_changing_def example_env_def)
  from example_alert_sent [OF acc1] obtain r1 where
    r1: "sendRequest example_env example_config ''POST'' ?ep example_alert = Some r1" by blast
  from example_alert_sent [OF acc2] obtain r2 where
    r2: "sendRequest example_env_changing example_config ''POST'' ?ep example_alert = Some r2" by blast
  have b: "map_option stringified
     (issued (makeRequest example_env example_config ''POST'' ?ep \<lparr>formData = example_alert\<rparr>)) =
     Some [example_alert, example_alert, example_alert]"
    using sendRequest_fields(13) [OF r1] al
    by (simp add: makeRequest_alert [OF example_alert_truthy] issued_send r1 id)
  have c: "map_option canonicalRequest
     (issued (makeRequest example_env_changing example_config ''POST'' ?ep \<lparr>formData = example_alert\<rparr>)) =
     Some (ascii (''POSThttps://news-api.apple.com/channels/c1/notifications2024-01-02T03:04:05Z'' @
                  ''application/json'' @ ''{\"data\":{\"alertBody\":\"hi\"}}''))"
  proof -
    from signed_alert [OF al r2] have "date r2 = ''2024-01-02T03:04:05Z''"
      and "canonicalRequest r2 =
        canonical_spec ''POST'' (host_of example_config) ''/channels/c1/notifications'' (date r2)
          (Some ''application/json'')
          (Some (utf8 example_env_changing (stringify example_env_changing example_alert)))"
      by (simp_all add: signed_with_def n)
    then have "canonicalRequest r2 =
        ascii (''POSThttps://news-api.apple.com/channels/c1/notifications2024-01-02T03:04:05Z'' @
               ''application/json'' @ ''{\"data\":{\"alertBody\":\"hi\"}}'')"
      by (simp add: canonical_spec_def s1 host_of_def example_config_def defaultHost_def ascii_def)
    then show ?thesis
      by (simp add: makeRequest_alert [OF example_alert_truthy] issued_send r2)
  qed
  have d: \<open>map_option written
     (issued (makeRequest example_env_changing example_config ''POST'' ?ep \<lparr>formData = example_alert\<rparr>)) =
     Some (Some (ascii ''{"data":{"alertBody":"bye"}}''))\<close>
    using sendRequest_fields(11) [OF r2]
    by (simp add: makeRequest_alert [OF example_alert_truthy] issued_send r2 written_alert [OF al] ch s2)
  have "sendRequest example_env example_config ''POST'' ''/channels/c1/a b'' example_alert = None"
    by (simp add: sendRequest_def headers_alert [OF al] payload_alert [OF al] Let_def
          request_opts_def acc1)
  then have e: "makeRequest example_env example_config ''POST'' ''/channels/c1/a b''
     \<lparr>formData = example_alert\<rparr> = Thrown None"
    by (simp add: makeRequest_alert [OF example_alert_truthy] send_def)
  from a b c d e show ?thesis by blast
qed

text \<open>
  C6, amended. For every POST whose payload has a truthy \<^verbatim>\<open>alertBody\<close> (not \<^verbatim>\<open>null\<close>, \<^verbatim>\<open>false\<close>,
  \<open>0\<close> or the empty string) under \<^verbatim>\<open>data\<close>, the encoder is not called. When a request is
  issued and the payload is not changed before the body is written, the payload is
  serialized three times, each time the same value; the headers sent are content-type
  \<^verbatim>\<open>application/json\<close> and content-length the number of UTF-8 bytes of its JSON text; and
  those bytes are both the payload part of the canonical request and the body written.
\<close>

theorem alert_bypasses_encoder:
  assumes "truthy (property (property fd ''data'') ''alertBody'')"
  shows "encoder_arg (makeRequest env config ''POST'' endpoint \<lparr>formData = fd\<rparr>) = None \<and>
         (\<forall>r. issued (makeRequest env config ''POST'' endpoint \<lparr>formData = fd\<rparr>) = Some r \<and>
               at_write env fd = fd \<longrightarrow>
            stringified r = [fd, fd, fd] \<and>
            opts_headers (opts r) ''content-type'' = Some (JStr ''application/json'') \<and>
            opts_headers (opts r) ''content-length'' =
              Some (JNum (real (length (utf8 env (stringify env fd))))) \<and>
            canonicalRequest r =
              canonical_spec ''POST'' (host_of config) endpoint (now env)
                (Some ''application/json'') (Some (utf8 env (stringify env fd))) \<and>
            written r = Some (utf8 env (stringify env fd)) \<and> ended r)"
proof (intro conjI allI impI)
  note m = makeRequest_alert [OF assms, of env config endpoint]
  show "encoder_arg (makeRequest env config ''POST'' endpoint \<lparr>formData = fd\<rparr>) = None"
    by (simp add: m encoder_arg_send)
  fix r
  assume h: "issued (makeRequest env config ''POST'' endpoint \<lparr>formData = fd\<rparr>) = Some r \<and>
             at_write env fd = fd"
  have al: "isAlert fd" using assms by (rule isAlert_nested)
  from h have r: "sendRequest env config ''POST'' endpoint fd = Some r"
    and same: "at_write env fd = fd"
    by (simp_all add: m issued_send)
  note f = sendRequest_fields [OF r]
  note s = signed_alert [OF al r, unfolded signed_with_def]
  show "stringified r = [fd, fd, fd]" by (simp add: f(13) al same)
  show "opts_headers (opts r) ''content-type'' = Some (JStr ''application/json'')"
    by (simp add: f(5) headers_alert [OF al] objectAssign_def)
  show "opts_headers (opts r) ''content-length'' =
          Some (JNum (real (length (utf8 env (stringify env fd)))))"
    by (simp add: f(5) headers_alert [OF al] objectAssign_def)
  show "canonicalRequest r =
          canonical_spec ''POST'' (host_of config) endpoint (now env)
            (Some ''application/json'') (Some (utf8 env (stringify env fd)))"
    using s by simp
  show "written r = Some (utf8 env (stringify env fd))"
    by (simp add: f(11) written_alert [OF al] same)
  show "ended r" by (simp add: f(12) written_alert [OF al])
qed

theorem alert_bypasses_encoder_witness:
  \<open>truthy (property (property example_alert ''data'') ''alertBody'') \<and>
   at_write example_env example_alert = example_alert \<and>
   stringify example_env example_alert = ''{"data":{"alertBody":"hi"}}'' \<and>
   encoder_arg (makeRequest example_env example_config ''POST'' ''/channels/c1/notifications''
                  \<lparr>formData = example_alert\<rparr>) = None \<and>
   (\<exists>r. issued (makeRequest example_env example_config ''POST'' ''/channels/c1/notifications''
                  \<lparr>formData = example_alert\<rparr>) = Some r \<and>
        stringified r = [example_alert, example_alert, example_alert] \<and>
        opts_headers (opts r) ''content-type'' = Some (JStr ''application/json'') \<and>
        opts_headers (opts r) ''content-length'' = Some (JNum 27) \<and>
        written r = Some (ascii ''{"data":{"alertBody":"hi"}}'') \<and> ended r)\<close>
proof -
  let ?ep = "''/channels/c1/notifications''"
  have a: "truthy (property (property example_alert ''data'') ''alertBody'')"
    by (rule example_alert_truthy)
  have same: "at_write example_env example_alert = example_alert" by (simp add: example_env_def)
  have s: \<open>stringify example_env example_alert = ''{"data":{"alertBody":"hi"}}''\<close>
    by (simp add: example_env_def example_stringify_def example_alert_def)
  have u: "utf8 example_env t = ascii t" for t by (simp add: example_env_def ascii_def)
  have acc: "https_accepts example_env = (\<lambda>ropts. CHR '' '' \<notin> set (path ropts))"
    by (simp add: example_env_def)
  from example_alert_sent [OF acc] obtain r where
    r: "sendRequest example_env example_config ''POST'' ?ep example_alert = Some r" by blast
  have i: "issued (makeRequest example_env example_config ''POST'' ?ep \<lparr>formData = example_alert\<rparr>) = Some r"
    by (simp add: makeRequest_alert [OF a] issued_send r)
  note t = alert_bypasses_encoder [OF a, of example_env example_config ?ep]
  from t have e: "encoder_arg (makeRequest example_env example_config ''POST'' ?ep
                  \<lparr>formData = example_alert\<rparr>) = None" by blast
  from t i same have
    "stringified r = [example_alert, example_alert, example_alert] \<and>
     opts_headers (opts r) ''content-type'' = Some (JStr ''application/json'') \<and>
     opts_headers (opts r) ''content-length'' =
       Some (JNum (real (length (utf8 example_env (stringify example_env example_alert))))) \<and>
     written r = Some (utf8 example_env (stringify example_env example_alert)) \<and> ended r"
    by blast
  then have "stringified r = [example_alert, example_alert, example_alert] \<and>
        opts_headers (opts r) ''content-type'' = Some (JStr ''application/json'') \<and>
        opts_headers (opts r) ''content-length'' = Some (JNum 27) \<and>
        written r = Some (ascii ''{\"data\":{\"alertBody\":\"hi\"}}'') \<and> ended r"
    by (simp add: s u ascii_def)
  with i a same s e show ?thesis by blast
qed

text \<open>
  C7. A POST with a payload that is truthy and no alert hands the payload to the encoder;
  when the encoder reports an error, the caller's callback receives exactly that error and
  \<^verbatim>\<open>sendRequest\<close> is not called: nothing is signed and no request is issued.
\<close>

theorem encoder_error_is_delivered:
  assumes "truthy fd" and "\<not> isAlert fd"
  shows "encoder_arg (makeRequest env config ''POST'' endpoint \<lparr>formData = fd\<rparr>) = Some fd \<and>
         (\<forall>e. encodeFormData env fd = Inl e \<longrightarrow>
            makeRequest env config ''POST'' endpoint \<lparr>formData = fd\<rparr> = Refused (Some fd) (Failure e))"
  using assms
  by (auto simp add: makeRequest_def isAlert_def send_def split: sum.splits option.splits)

theorem encoder_error_is_delivered_witness:
  "truthy (JObj []) \<and> \<not> isAlert (JObj []) \<and>
   encodeFormData example_env (JObj []) = Inl (Error ''nothing to encode'') \<and>
   makeRequest example_env example_config ''POST'' ''/channels/c1/articles'' \<lparr>formData = JObj []\<rparr> =
     Refused (Some (JObj [])) (Failure (Error ''nothing to encode''))"
proof -
  have a: "truthy (JObj [])" by simp
  have b: "\<not> isAlert (JObj [])" by (simp add: isAlert_def)
  have c: "encodeFormData example_env (JObj []) = Inl (Error ''nothing to encode'')"
    by (simp add: example_env_def example_encode_def)
  from encoder_error_is_delivered [OF a b, of example_env example_config "''/channels/c1/articles''"]
  show ?thesis using a b c by blast
qed

subsection \<open>Events\<close>

text \<open>The \<^verbatim>\<open>'end'\<close> handler delivers what \<open>finish\<close> computes, once.\<close>

lemma end_delivers_finish:
  assumes "res s = Some r" and "\<not> done_flag s"
      and "finish env meth endpoint r (result s) = Some out"
  shows "delivered (on_event env config meth endpoint s End) = delivered s @ [out]"
  using assms by simp

text \<open>
  C8. When the response ends with nothing accumulated and a status code whose first digit
  is \<open>2\<close> (every code from 200 to 299, by \<open>status_2xx_first_digit\<close>), the caller receives
  success with \<^verbatim>\<open>null\<close>.
\<close>

theorem empty_body_2xx_success:
  assumes "res s = Some r"
      and "\<not> done_flag s"
      and "result s = []"
      and "take 1 (String_nat (statusCode r)) = ''2''"
  shows "delivered (on_event env config meth endpoint s End) = delivered s @ [Success Null]"
  using assms by (simp add: finish_def on_end_def)

theorem empty_body_2xx_success_witness:
  "res (on_event example_env example_config ''DELETE'' ''/articles/a1'' tx_init (Response \<lparr>statusCode = 204\<rparr>))
     = Some \<lparr>statusCode = 204\<rparr> \<and>
   \<not> done_flag (on_event example_env example_config ''DELETE'' ''/articles/a1'' tx_init (Response \<lparr>statusCode = 204\<rparr>)) \<and>
   result (on_event example_env example_config ''DELETE'' ''/articles/a1'' tx_init (Response \<lparr>statusCode = 204\<rparr>)) = [] \<and>
   take 1 (String_nat (statusCode \<lparr>statusCode = 204\<rparr>)) = ''2'' \<and>
   delivered (run example_env example_config ''DELETE'' ''/articles/a1'' [Response \<lparr>statusCode = 204\<rparr>, End])
     = [Success Null]"
proof -
  let ?s = "on_event example_env example_config ''DELETE'' ''/articles/a1'' tx_init (Response \<lparr>statusCode = 204\<rparr>)"
  have a: "res ?s = Some \<lparr>statusCode = 204\<rparr>" by simp
  have b: "\<not> done_flag ?s" by simp
  have c: "result ?s = []" by simp
  have d: "take 1 (String_nat (statusCode \<lparr>statusCode = 204\<rparr>)) = ''2''"
    by (simp add: String_nat_examples)
  have e: "delivered ?s = []" by (simp add: tx_init_def)
  from empty_body_2xx_success [OF a b c d, of example_env example_config "''DELETE''" "''/articles/a1''"]
  show ?thesis using a b c d by (simp add: run_def tx_init_def)
qed

text \<open>
  C9. An \<^verbatim>\<open>'error'\<close> event on the request is delivered as the timeout error exactly when its
  code is \<^verbatim>\<open>ECONNRESET\<close>, and as the error itself otherwise; the message of the timeout error
  contains the configured timeout followed by \<^verbatim>\<open>ms\<close>.
\<close>

theorem request_error_classification:
  "delivered (on_event env config meth endpoint s (ReqError e)) =
     delivered s @ [Failure (if code e = Some ''ECONNRESET'' then timeout_error config else e)] \<and>
   (timeout config = Some t \<longrightarrow>
      message (timeout_error config) =
        ''Apple News API endpoint timeout after '' @ String_nat t @ '' ms'' \<and>
      sublist (String_nat t @ '' ms'') (message (timeout_error config)))"
proof -
  have "sublist (String_nat t @ '' ms'') (''Apple News API endpoint timeout after '' @ (String_nat t @ '' ms'') @ [])"
    by (rule sublist_appendI)
  then show ?thesis by (simp add: timeout_error_def)
qed

theorem request_error_classification_witness:
  "timeout example_config = Some 5000 \<and>
   delivered (on_event example_env example_config ''GET'' ''/channels/c1'' tx_init
                (ReqError (Err ''socket hang up'' (Some ''ECONNRESET'') None))) =
     [Failure (Error ''Apple News API endpoint timeout after 5000 ms'')] \<and>
   delivered (on_event example_env example_config ''GET'' ''/channels/c1'' tx_init
                (ReqError (Err ''getaddrinfo ENOTFOUND'' (Some ''ENOTFOUND'') None))) =
     [Failure (Err ''getaddrinfo ENOTFOUND'' (Some ''ENOTFOUND'') None)]"
proof -
  have a: "timeout example_config = Some 5000" by (simp add: example_config_def)
  have m: "message (timeout_error example_config) = ''Apple News API endpoint timeout after 5000 ms''"
    using request_error_classification [of example_env example_config "''GET''" "''/channels/c1''" tx_init
        "Err ''socket hang up'' (Some ''ECONNRESET'') None" 5000] a
    by (simp add: String_nat_examples)
  then have t: "timeout_error example_config = Error ''Apple News API endpoint timeout after 5000 ms''"
    by (simp add: timeout_error_def)
  show ?thesis
    using request_error_classification [of example_env example_config "''GET''" "''/channels/c1''" tx_init
        "Err ''socket hang up'' (Some ''ECONNRESET'') None" 5000]
      request_error_classification [of example_env example_config "''GET''" "''/channels/c1''" tx_init
        "Err ''getaddrinfo ENOTFOUND'' (Some ''ENOTFOUND'') None" 5000] a
    by (simp add: t tx_init_def)
qed

text \<open>
  C4 fails on the code. The \<^verbatim>\<open>'error'\<close> handler of the request does not consult the flag
  \<^verbatim>\<open>done\<close> that guards the handlers of the response: when the connection is reset after the
  response has begun and the response then ends, the caller's callback is called twice,
  with the timeout error and with success. And when the body is the text \<^verbatim>\<open>null\<close>, reading
  \<^verbatim>\<open>parsed.data\<close> throws after the flag is set, and the callback is never called.
\<close>

theorem callback_not_exactly_once:
  "delivered (run example_env example_config ''GET'' ''/channels/c1''
      [Response \<lparr>statusCode = 200\<rparr>,
       ReqError (Err ''socket hang up'' (Some ''ECONNRESET'') None),
       End]) =
     [Failure (Error ''Apple News API endpoint timeout after 5000 ms''), Success Null] \<and>
   delivered (run example_env example_config ''GET'' ''/channels/c1''
      [Response \<lparr>statusCode = 200\<rparr>, Data (ascii ''null''), End]) = []"
proof -
  have d: "utf8_decode example_env (ascii ''null'') = ''null''" by code_simp
  have p: "parse example_env ''null'' = Inr Null" by (simp add: example_env_def example_parse_def)
  show ?thesis
    by (simp add: run_def tx_init_def finish_def on_end_def d p timeout_error_def example_config_def
          String_nat_examples)
qed

text \<open>
  The guard does its work among the handlers of the response: after a response has begun,
  its events alone call the callback at most once.
\<close>

lemma response_events_guarded:
  assumes "\<forall>ev \<in> set evs. response_event ev"
  shows "length (delivered (foldl (on_event env config meth endpoint) s evs)) \<le>
           length (delivered s) + (if done_flag s then 0 else 1) \<and>
         (done_flag s \<longrightarrow> done_flag (foldl (on_event env config meth endpoint) s evs))"
  using assms
proof (induction evs arbitrary: s)
  case Nil
  then show ?case by simp
next
  case (Cons ev evs)
  then have r: "response_event ev" and rest: "\<forall>ev \<in> set evs. response_event ev" by simp_all
  let ?s' = "on_event env config meth endpoint s ev"
  have step: "length (delivered ?s') \<le> length (delivered s) + (if done_flag s then 0 else 1) \<and>
      (done_flag s \<longrightarrow> done_flag ?s' \<and> delivered ?s' = delivered s) \<and>
      (length (delivered ?s') = length (delivered s) + 1 \<longrightarrow> done_flag ?s')"
    using r by (cases ev) (auto split: option.splits)
  from Cons.IH [OF rest, of ?s'] step show ?case
    by (auto split: if_splits)
qed

subsection \<open>Certificate validation\<close>

text \<open>
  C10. Every request issued has \<^verbatim>\<open>rejectUnauthorized\<close> false exactly when \<^verbatim>\<open>NODE_ENV\<close> is the
  string \<^verbatim>\<open>test\<close>, whatever the configuration; when the variable is unset, certificates are
  validated.
\<close>

theorem tls_validation_by_node_env:
  assumes "makeRequest env config meth endpoint ro = Issued a r"
  shows "rejectUnauthorized (opts r) = (NODE_ENV env \<noteq> Some ''test'')"
proof -
  from makeRequest_Issued [OF assms] obtain post where
    "sendRequest env config meth endpoint post = Some r" by blast
  then show ?thesis by (rule sendRequest_fields(9))
qed

theorem tls_validation_by_node_env_witness:
  "makeRequest example_env example_config ''GET'' ''/channels/c1'' \<lparr>formData = Undefined\<rparr>
     = Issued None example_get \<and>
   NODE_ENV example_env = None \<and> rejectUnauthorized (opts example_get)"
proof -
  have h: "makeRequest example_env example_config ''GET'' ''/channels/c1'' \<lparr>formData = Undefined\<rparr>
     = Issued None example_get"
    by (simp add: makeRequest_def send_def example_get_sent)
  from tls_validation_by_node_env [OF h] show ?thesis
    using h by (simp add: example_env_def)
qed

end
